theory Spec2Isabelle
  imports Complex_Main
begin

section \<open>JavaScript values\<close>

text \<open>
  The program is one React component, \<^verbatim>\<open>Page\<close> in \<^verbatim>\<open>src/app/page.tsx\<close>.  Its numbers are
  JavaScript numbers.  They are modelled as exact extended reals with a NaN: a finite number
  is the real it denotes, so binary rounding and the sign of zero are outside the model
  (a zero divisor is read as \<open>+0\<close>).
\<close>

datatype jsnum = NaN | NInf | Fin real | PInf

text \<open>The comparison \<^verbatim>\<open>a <= b\<close>; every comparison with NaN is false.\<close>

fun jle :: "jsnum \<Rightarrow> jsnum \<Rightarrow> bool" where
  "jle NaN b = False"
| "jle a NaN = False"
| "jle NInf b = True"
| "jle a PInf = True"
| "jle (Fin a) (Fin b) = (a \<le> b)"
| "jle a b = False"

definition jlt :: "jsnum \<Rightarrow> jsnum \<Rightarrow> bool" where
  "jlt a b = (jle a b \<and> a \<noteq> b)"

definition jge :: "jsnum \<Rightarrow> jsnum \<Rightarrow> bool" where
  "jge a b = jle b a"

definition jgt :: "jsnum \<Rightarrow> jsnum \<Rightarrow> bool" where
  "jgt a b = jlt b a"

definition isNaN :: "jsnum \<Rightarrow> bool" where
  "isNaN n = (n = NaN)"

text \<open>\<^verbatim>\<open>Math.max\<close> and \<^verbatim>\<open>Math.min\<close> of two numbers: NaN when either argument is NaN.\<close>

definition Math_max :: "jsnum \<Rightarrow> jsnum \<Rightarrow> jsnum" where
  "Math_max a b = (if a = NaN \<or> b = NaN then NaN else if jle a b then b else a)"

definition Math_min :: "jsnum \<Rightarrow> jsnum \<Rightarrow> jsnum" where
  "Math_min a b = (if a = NaN \<or> b = NaN then NaN else if jle a b then a else b)"

text \<open>Arithmetic.  \<open>signum\<close> is the sign of a non-NaN number, \<open>inf_of\<close> the infinity of
  a sign (NaN for sign zero, as in \<^verbatim>\<open>0 * Infinity\<close> and \<^verbatim>\<open>0 / 0\<close>).\<close>

fun signum :: "jsnum \<Rightarrow> real" where
  "signum (Fin a) = sgn a"
| "signum PInf = 1"
| "signum NInf = - 1"
| "signum NaN = 0"

definition inf_of :: "real \<Rightarrow> jsnum" where
  "inf_of x = (if x = 0 then NaN else if 0 < x then PInf else NInf)"

fun jneg :: "jsnum \<Rightarrow> jsnum" where
  "jneg NaN = NaN"
| "jneg NInf = PInf"
| "jneg PInf = NInf"
| "jneg (Fin a) = Fin (- a)"

fun jadd :: "jsnum \<Rightarrow> jsnum \<Rightarrow> jsnum" where
  "jadd NaN b = NaN"
| "jadd a NaN = NaN"
| "jadd (Fin a) (Fin b) = Fin (a + b)"
| "jadd PInf NInf = NaN"
| "jadd NInf PInf = NaN"
| "jadd PInf b = PInf"
| "jadd NInf b = NInf"
| "jadd a PInf = PInf"
| "jadd a NInf = NInf"

definition jsub :: "jsnum \<Rightarrow> jsnum \<Rightarrow> jsnum" where
  "jsub a b = jadd a (jneg b)"

fun jmul :: "jsnum \<Rightarrow> jsnum \<Rightarrow> jsnum" where
  "jmul NaN b = NaN"
| "jmul a NaN = NaN"
| "jmul (Fin a) (Fin b) = Fin (a * b)"
| "jmul a b = inf_of (signum a * signum b)"

fun jdiv :: "jsnum \<Rightarrow> jsnum \<Rightarrow> jsnum" where
  "jdiv NaN b = NaN"
| "jdiv a NaN = NaN"
| "jdiv (Fin a) (Fin b) = (if b = 0 then inf_of (sgn a) else Fin (a / b))"
| "jdiv (Fin a) b = Fin 0"
| "jdiv a (Fin b) = inf_of (signum a * (if 0 \<le> b then 1 else - 1))"
| "jdiv a b = NaN"

text \<open>\<^verbatim>\<open>Math.round\<close>: the nearest integer, halves rounded up.\<close>

fun Math_round :: "jsnum \<Rightarrow> jsnum" where
  "Math_round (Fin a) = Fin (of_int \<lfloor>a + 1 / 2\<rfloor>)"
| "Math_round a = a"

text \<open>
  \<^verbatim>\<open>function clamp(n, min, max) {
    if (Number.isNaN(n)) return min;
    return Math.min(max, Math.max(min, n)); }\<close>
\<close>

definition clamp :: "jsnum \<Rightarrow> jsnum \<Rightarrow> jsnum \<Rightarrow> jsnum" where
  "clamp n mn mx = (if isNaN n then mn else Math_min mx (Math_max mn n))"

text \<open>\<^verbatim>\<open>function roundSmart(n) { return Math.max(0, Math.round(n)); }\<close>\<close>

definition roundSmart :: "jsnum \<Rightarrow> jsnum" where
  "roundSmart n = Math_max (Fin 0) (Math_round n)"

text \<open>
  Values as the program can hold them: what \<^verbatim>\<open>JSON.parse\<close> returns, \<^verbatim>\<open>undefined\<close> for a
  missing property, and the object literals the program builds.  An object is its list of
  own properties.
\<close>

datatype jsval =
    Undefined
  | Null
  | Bool bool
  | Number jsnum
  | String string
  | Array "jsval list"
  | Object "(string \<times> jsval) list"

datatype error = SyntaxError | TypeError

text \<open>
  The host functions the program calls and this repository does not define are a parameter
  of the model: \<^verbatim>\<open>JSON.parse\<close> (\<open>Inl SyntaxError\<close> when it throws), \<^verbatim>\<open>JSON.stringify\<close>,
  the numeric reading of a string (\<^verbatim>\<open>Number("12")\<close>) and the decimal text of a number
  (\<^verbatim>\<open>String(12)\<close>).
\<close>

record platform =
  JSON_parse :: "string \<Rightarrow> error + jsval"
  JSON_stringify :: "jsval \<Rightarrow> string"
  StringToNumber :: "string \<Rightarrow> jsnum"
  NumberToString :: "jsnum \<Rightarrow> string"

fun join_comma :: "string list \<Rightarrow> string" where
  "join_comma [] = []"
| "join_comma [x] = x"
| "join_comma (x # y # ys) = x @ '','' @ join_comma (y # ys)"

text \<open>The text of a value (\<^verbatim>\<open>String(v)\<close>); inside an array, \<^verbatim>\<open>null\<close> and
  \<^verbatim>\<open>undefined\<close> elements are empty.\<close>

fun ToString :: "platform \<Rightarrow> jsval \<Rightarrow> string" where
  "ToString P Undefined = ''undefined''"
| "ToString P Null = ''null''"
| "ToString P (Bool b) = (if b then ''true'' else ''false'')"
| "ToString P (Number n) = NumberToString P n"
| "ToString P (String t) = t"
| "ToString P (Array xs) =
     join_comma (map (\<lambda>x. if x = Undefined \<or> x = Null then [] else ToString P x) xs)"
| "ToString P (Object kvs) = ''[object Object]''"

text \<open>\<^verbatim>\<open>Number(v)\<close>, also the conversion the arithmetic operators and \<^verbatim>\<open>Math.min\<close>
  apply to an operand that is not a number.\<close>

fun ToNumber :: "platform \<Rightarrow> jsval \<Rightarrow> jsnum" where
  "ToNumber P Undefined = NaN"
| "ToNumber P Null = Fin 0"
| "ToNumber P (Bool b) = (if b then Fin 1 else Fin 0)"
| "ToNumber P (Number n) = n"
| "ToNumber P (String t) = StringToNumber P t"
| "ToNumber P (Array xs) = StringToNumber P (ToString P (Array xs))"
| "ToNumber P (Object kvs) = StringToNumber P (ToString P (Object kvs))"

text \<open>Truthiness, as \<^verbatim>\<open>&&\<close> and \<^verbatim>\<open>if\<close> test it, and the test of \<^verbatim>\<open>??\<close>.\<close>

fun truthy :: "jsval \<Rightarrow> bool" where
  "truthy Undefined = False"
| "truthy Null = False"
| "truthy (Bool b) = b"
| "truthy (Number n) = (n \<noteq> NaN \<and> n \<noteq> Fin 0)"
| "truthy (String t) = (t \<noteq> [])"
| "truthy (Array xs) = True"
| "truthy (Object kvs) = True"

definition nullish :: "jsval \<Rightarrow> bool" where
  "nullish v = (v = Undefined \<or> v = Null)"

text \<open>
  Reading a property \<^verbatim>\<open>v.k\<close>: a TypeError on \<^verbatim>\<open>null\<close> and \<^verbatim>\<open>undefined\<close>, the own
  property of an object, and \<^verbatim>\<open>undefined\<close> on any other value (none of the names the
  program reads is a property of a string, an array, a number or a boolean).
\<close>

fun getProp :: "jsval \<Rightarrow> string \<Rightarrow> error + jsval" where
  "getProp Undefined k = Inl TypeError"
| "getProp Null k = Inl TypeError"
| "getProp (Object kvs) k = Inr (case map_of kvs k of None \<Rightarrow> Undefined | Some v \<Rightarrow> v)"
| "getProp v k = Inr Undefined"

definition bindE :: "error + 'a \<Rightarrow> ('a \<Rightarrow> error + 'b) \<Rightarrow> error + 'b" where
  "bindE m f = (case m of Inl e \<Rightarrow> Inl e | Inr x \<Rightarrow> f x)"

section \<open>The state of the component\<close>

definition QURAN_PAGES :: jsnum where
  "QURAN_PAGES = Fin 604"

datatype Theme = light | dark

datatype Tab = tab_plan | tab_track

text \<open>\<^verbatim>\<open>type GoalPreset = 1 | 2 | 3 | "custom"\<close>, \<^verbatim>\<open>type DaysPreset = 30 | 29 | "custom"\<close>
  and \<^verbatim>\<open>type SessionsPreset = 1 | 2 | 3 | 5\<close>.\<close>

datatype GoalPreset = Goal1 | Goal2 | Goal3 | GoalCustom

datatype DaysPreset = Days30 | Days29 | DaysCustom

datatype SessionsPreset = Sessions1 | Sessions2 | Sessions3 | Sessions5

datatype TrackMode = onPage | readPages

text \<open>
  The fields of a plan, and the custom goal, the custom days and the sessions of the plan
  screen, are declared numbers but are assigned, unchecked, whatever the stored plan holds
  (\<^verbatim>\<open>JSON.parse(value) as T\<close>), so the model keeps them as values and converts where the
  program does.  A saved plan is kept by its three fields, the only ones the program reads.
\<close>

record Plan =
  goalKhatmah :: jsval
  daysTotal :: jsval
  sessionsPerDay :: jsval

record ProgressState =
  pagesCompleted :: jsnum
  lastUpdatedAt :: jsval

text \<open>The object literal \<^verbatim>\<open>{ at: now, label, pagesCompleted }\<close> of a history entry.\<close>

definition HistoryItem :: "jsnum \<Rightarrow> string \<Rightarrow> jsnum \<Rightarrow> jsval" where
  "HistoryItem at' label' pagesCompleted' =
     Object [(''at'', Number at'), (''label'', String label'),
             (''pagesCompleted'', Number pagesCompleted')]"

record state =
  theme :: Theme
  tab :: Tab
  goalPreset :: GoalPreset
  customGoal :: jsval
  daysPreset :: DaysPreset
  customDays :: jsval
  sessions :: jsval
  plan :: "Plan option"
  planSavedToast :: string
  trackMode :: TrackMode
  inputPage :: jsnum
  inputReadPages :: jsnum
  ramadanDay :: jsnum
  progress :: ProgressState
  history :: "jsval list"
  localStorage :: "string \<rightharpoonup> string"

definition LS_theme :: string where "LS_theme = ''qp_theme_v1''"
definition LS_plan :: string where "LS_plan = ''qp_plan_v1''"
definition LS_progress :: string where "LS_progress = ''qp_progress_v1''"
definition LS_history :: string where "LS_history = ''qp_history_v1''"
definition LS_ramadanDay :: string where "LS_ramadanDay = ''qp_ramadan_day_v1''"

text \<open>The initial values of the \<^verbatim>\<open>useState\<close> calls, over a given store.\<close>

definition initialState :: "(string \<rightharpoonup> string) \<Rightarrow> state" where
  "initialState ls =
     \<lparr> theme = light, tab = tab_plan,
       goalPreset = Goal1, customGoal = Number (Fin 1),
       daysPreset = Days30, customDays = Number (Fin 30),
       sessions = Number (Fin 2),
       plan = None, planSavedToast = [],
       trackMode = onPage, inputPage = Fin 1, inputReadPages = Fin 0,
       ramadanDay = Fin 1,
       progress = \<lparr> pagesCompleted = Fin 0, lastUpdatedAt = Null \<rparr>,
       history = [],
       localStorage = ls \<rparr>"

section \<open>Derived values\<close>

text \<open>\<^verbatim>\<open>const effectiveGoal = goalPreset === "custom" ? customGoal : goalPreset;\<close>\<close>

definition effectiveGoal :: "state \<Rightarrow> jsval" where
  "effectiveGoal s =
     (case goalPreset s of
        GoalCustom \<Rightarrow> customGoal s
      | Goal1 \<Rightarrow> Number (Fin 1)
      | Goal2 \<Rightarrow> Number (Fin 2)
      | Goal3 \<Rightarrow> Number (Fin 3))"

definition effectiveDays :: "state \<Rightarrow> jsval" where
  "effectiveDays s =
     (case daysPreset s of
        DaysCustom \<Rightarrow> customDays s
      | Days30 \<Rightarrow> Number (Fin 30)
      | Days29 \<Rightarrow> Number (Fin 29))"

text \<open>\<^verbatim>\<open>const g = clamp(Number(effectiveGoal), 1, 50); return QURAN_PAGES * g;\<close>\<close>

definition totalPages :: "platform \<Rightarrow> state \<Rightarrow> jsnum" where
  "totalPages P s =
     (let g = clamp (ToNumber P (effectiveGoal s)) (Fin 1) (Fin 50)
      in jmul QURAN_PAGES g)"

text \<open>\<^verbatim>\<open>plan?.daysTotal ?? clamp(Number(effectiveDays), 1, 60)\<close> and
  \<^verbatim>\<open>plan?.sessionsPerDay ?? sessions\<close>.\<close>

definition daysTotalFromPlan :: "platform \<Rightarrow> state \<Rightarrow> jsval" where
  "daysTotalFromPlan P s =
     (let fallback = Number (clamp (ToNumber P (effectiveDays s)) (Fin 1) (Fin 60))
      in case plan s of
           None \<Rightarrow> fallback
         | Some p \<Rightarrow> if nullish (daysTotal p) then fallback else daysTotal p)"

definition sessionsFromPlan :: "state \<Rightarrow> jsval" where
  "sessionsFromPlan s =
     (case plan s of
        None \<Rightarrow> sessions s
      | Some p \<Rightarrow> if nullish (sessionsPerDay p) then sessions s else sessionsPerDay p)"

record PlanResults =
  total :: jsnum
  perDay :: jsnum
  perSession :: jsnum
  perSalah :: "jsnum option"
  plan_g :: jsnum
  plan_d :: jsnum
  plan_s :: jsval

text \<open>The memo \<^verbatim>\<open>planResults\<close>; \<^verbatim>\<open>null\<close> for the per-salah value is \<open>None\<close>.\<close>

definition planResults :: "platform \<Rightarrow> state \<Rightarrow> PlanResults" where
  "planResults P st =
     (let g = clamp (ToNumber P (effectiveGoal st)) (Fin 1) (Fin 50);
          d = clamp (ToNumber P (effectiveDays st)) (Fin 1) (Fin 60);
          s = sessions st;
          total' = jmul QURAN_PAGES g;
          perDay' = jdiv total' d;
          perSession' = jdiv perDay' (ToNumber P s);
          perSalah' = (if s = Number (Fin 5) then Some (jdiv perDay' (Fin 5)) else None)
      in \<lparr> total = total', perDay = perDay', perSession = perSession',
           perSalah = perSalah', plan_g = g, plan_d = d, plan_s = s \<rparr>)"

datatype Status = ontrack | slight | behind

record TrackTotals =
  completed :: jsnum
  left :: jsnum
  daysLeft :: jsnum
  neededPerDay :: jsnum
  neededPerSession :: jsnum
  neededPerSalah :: "jsnum option"
  pct :: jsnum
  status :: Status
  idealCompletedByNow :: jsnum
  dayNow :: jsnum
  dTotal :: jsnum

text \<open>The memo \<^verbatim>\<open>trackTotals\<close>.  \<^verbatim>\<open>ramadanDay\<close> and \<^verbatim>\<open>progress.pagesCompleted\<close> are
  numbers, on which \<^verbatim>\<open>Number\<close> is the identity.\<close>

definition trackTotals :: "platform \<Rightarrow> state \<Rightarrow> TrackTotals" where
  "trackTotals P st =
     (let dTotal' = clamp (ToNumber P (daysTotalFromPlan P st)) (Fin 1) (Fin 60);
          dayNow' = clamp (ramadanDay st) (Fin 1) dTotal';
          completed' = clamp (pagesCompleted (progress st)) (Fin 0) (totalPages P st);
          left' = Math_max (Fin 0) (jsub (totalPages P st) completed');
          daysLeft' = Math_max (Fin 0) (jadd (jsub dTotal' dayNow') (Fin 1));
          neededPerDay' = (if jgt daysLeft' (Fin 0) then jdiv left' daysLeft' else left');
          neededPerSession' = jdiv neededPerDay' (ToNumber P (sessionsFromPlan st));
          neededPerSalah' =
            (if sessionsFromPlan st = Number (Fin 5) then Some (jdiv neededPerDay' (Fin 5))
             else None);
          pct' = (if totalPages P st = Fin 0 then Fin 0
                  else jmul (jdiv completed' (totalPages P st)) (Fin 100));
          idealCompletedByNow' = jmul (jdiv (totalPages P st) dTotal') dayNow';
          delta = jsub completed' idealCompletedByNow';
          status' = (if jge delta (Fin 10) then ontrack
                     else if jge delta (Fin (- 10)) then slight else behind)
      in \<lparr> completed = completed', left = left', daysLeft = daysLeft',
           neededPerDay = neededPerDay', neededPerSession = neededPerSession',
           neededPerSalah = neededPerSalah', pct = pct', status = status',
           idealCompletedByNow = idealCompletedByNow', dayNow = dayNow',
           dTotal = dTotal' \<rparr>)"

section \<open>Loading the stored state\<close>

text \<open>
  \<^verbatim>\<open>function safeJsonParse<T>(value: string | null): T | null {
    if (!value) return null;
    try { return JSON.parse(value) as T; } catch { return null; } }\<close>
\<close>

definition safeJsonParse :: "platform \<Rightarrow> string option \<Rightarrow> jsval" where
  "safeJsonParse P value' =
     (case value' of
        None \<Rightarrow> Null
      | Some v \<Rightarrow>
          if v = [] then Null
          else (case JSON_parse P v of Inl e \<Rightarrow> Null | Inr j \<Rightarrow> j))"

text \<open>The first effect of the component, in the order of its statements.  Every property
  read is a \<open>getProp\<close>, so a read the source does not guard would surface as \<open>Inl\<close>.\<close>

definition loadTheme :: "state \<Rightarrow> state" where
  "loadTheme s =
     (let savedTheme = localStorage s LS_theme
      in if savedTheme = Some ''light'' then s\<lparr>theme := light\<rparr>
         else if savedTheme = Some ''dark'' then s\<lparr>theme := dark\<rparr>
         else s)"

text \<open>\<^verbatim>\<open>savedPlan && savedPlan.goalKhatmah && savedPlan.daysTotal && savedPlan.sessionsPerDay\<close>\<close>

definition planIsComplete :: "jsval \<Rightarrow> error + bool" where
  "planIsComplete savedPlan =
     (if \<not> truthy savedPlan then Inr False
      else bindE (getProp savedPlan ''goalKhatmah'') (\<lambda>g.
        if \<not> truthy g then Inr False
        else bindE (getProp savedPlan ''daysTotal'') (\<lambda>d.
          if \<not> truthy d then Inr False
          else bindE (getProp savedPlan ''sessionsPerDay'') (\<lambda>x. Inr (truthy x)))))"

definition loadPlan :: "platform \<Rightarrow> state \<Rightarrow> error + state" where
  "loadPlan P s =
     (let savedPlan = safeJsonParse P (localStorage s LS_plan)
      in bindE (planIsComplete savedPlan) (\<lambda>ok.
           if \<not> ok then Inr s
           else
             bindE (getProp savedPlan ''goalKhatmah'') (\<lambda>g.
             bindE (getProp savedPlan ''daysTotal'') (\<lambda>d.
             bindE (getProp savedPlan ''sessionsPerDay'') (\<lambda>x.
               let s1 = s\<lparr>plan := Some \<lparr>goalKhatmah = g, daysTotal = d, sessionsPerDay = x\<rparr>\<rparr>;
                   s2 = (if g = Number (Fin 1) then s1\<lparr>goalPreset := Goal1\<rparr>
                         else if g = Number (Fin 2) then s1\<lparr>goalPreset := Goal2\<rparr>
                         else if g = Number (Fin 3) then s1\<lparr>goalPreset := Goal3\<rparr>
                         else s1\<lparr>goalPreset := GoalCustom, customGoal := g\<rparr>);
                   s3 = (if d = Number (Fin 29) then s2\<lparr>daysPreset := Days29\<rparr>
                         else if d = Number (Fin 30) then s2\<lparr>daysPreset := Days30\<rparr>
                         else s2\<lparr>daysPreset := DaysCustom, customDays := d\<rparr>)
               in Inr (s3\<lparr>sessions := x\<rparr>))))))"

text \<open>\<^verbatim>\<open>if (savedProgress && typeof savedProgress.pagesCompleted === "number")
    setProgress({ pagesCompleted: savedProgress.pagesCompleted,
                  lastUpdatedAt: savedProgress.lastUpdatedAt ?? null });\<close>\<close>

definition loadProgress :: "platform \<Rightarrow> state \<Rightarrow> error + state" where
  "loadProgress P s =
     (let savedProgress = safeJsonParse P (localStorage s LS_progress)
      in if \<not> truthy savedProgress then Inr s
         else bindE (getProp savedProgress ''pagesCompleted'') (\<lambda>pc.
           case pc of
             Number n \<Rightarrow>
               bindE (getProp savedProgress ''lastUpdatedAt'') (\<lambda>t.
                 Inr (s\<lparr>progress :=
                   \<lparr> pagesCompleted = n,
                     lastUpdatedAt = (if nullish t then Null else t) \<rparr>\<rparr>))
           | _ \<Rightarrow> Inr s))"

text \<open>\<^verbatim>\<open>if (Array.isArray(savedHistory)) setHistory(savedHistory.slice(0, 30));\<close>\<close>

definition loadHistory :: "platform \<Rightarrow> state \<Rightarrow> state" where
  "loadHistory P s =
     (case safeJsonParse P (localStorage s LS_history) of
        Array xs \<Rightarrow> s\<lparr>history := take 30 xs\<rparr>
      | _ \<Rightarrow> s)"

text \<open>\<^verbatim>\<open>const savedRamadanDay = Number(localStorage.getItem(LS_KEYS.ramadanDay));
  if (!Number.isNaN(savedRamadanDay) && savedRamadanDay > 0) setRamadanDay(savedRamadanDay);\<close>
  \<^verbatim>\<open>getItem\<close> gives \<^verbatim>\<open>null\<close> for a missing key.\<close>

definition loadRamadanDay :: "platform \<Rightarrow> state \<Rightarrow> state" where
  "loadRamadanDay P s =
     (let savedRamadanDay =
            ToNumber P (case localStorage s LS_ramadanDay of None \<Rightarrow> Null | Some t \<Rightarrow> String t)
      in if \<not> isNaN savedRamadanDay \<and> jgt savedRamadanDay (Fin 0)
         then s\<lparr>ramadanDay := savedRamadanDay\<rparr> else s)"

definition load :: "platform \<Rightarrow> state \<Rightarrow> error + state" where
  "load P s =
     bindE (loadPlan P (loadTheme s)) (\<lambda>s1.
     bindE (loadProgress P s1) (\<lambda>s2.
     Inr (loadRamadanDay P (loadHistory P s2))))"

text \<open>The second effect: \<^verbatim>\<open>localStorage.setItem(LS_KEYS.theme, theme)\<close>, run after the
  first render and after every change of the theme.\<close>

definition themeEffect :: "state \<Rightarrow> state" where
  "themeEffect s =
     s\<lparr>localStorage := (localStorage s)
          (LS_theme \<mapsto> (case theme s of light \<Rightarrow> ''light'' | dark \<Rightarrow> ''dark''))\<rparr>"

section \<open>The handlers\<close>

definition plan_object :: "Plan \<Rightarrow> jsval" where
  "plan_object p =
     Object [(''goalKhatmah'', goalKhatmah p), (''daysTotal'', daysTotal p),
             (''sessionsPerDay'', sessionsPerDay p)]"

definition progress_object :: "ProgressState \<Rightarrow> jsval" where
  "progress_object p =
     Object [(''pagesCompleted'', Number (pagesCompleted p)),
             (''lastUpdatedAt'', lastUpdatedAt p)]"

text \<open>The check mark of the toast and the dash of the labels, as UTF-8 bytes.\<close>

definition check_mark :: string where
  "check_mark = [CHR 0xE2, CHR 0x9C, CHR 0x93]"

definition em_dash :: string where
  "em_dash = [CHR 0xE2, CHR 0x80, CHR 0x94]"

definition savePlan :: "platform \<Rightarrow> state \<Rightarrow> state" where
  "savePlan P s =
     (let newPlan =
            \<lparr> goalKhatmah = Number (clamp (ToNumber P (effectiveGoal s)) (Fin 1) (Fin 50)),
              daysTotal = Number (clamp (ToNumber P (effectiveDays s)) (Fin 1) (Fin 60)),
              sessionsPerDay = sessions s \<rparr>
      in s\<lparr> plan := Some newPlan,
            localStorage := (localStorage s)(LS_plan \<mapsto> JSON_stringify P (plan_object newPlan)),
            planSavedToast := ''Plan saved '' @ check_mark \<rparr>)"

definition resetAll :: "state \<Rightarrow> state" where
  "resetAll s =
     s\<lparr> goalPreset := Goal1, customGoal := Number (Fin 1),
        daysPreset := Days30, customDays := Number (Fin 30),
        sessions := Number (Fin 2),
        plan := None,
        trackMode := onPage, inputPage := Fin 1, inputReadPages := Fin 0,
        ramadanDay := Fin 1,
        progress := \<lparr> pagesCompleted = Fin 0, lastUpdatedAt = Null \<rparr>,
        history := [],
        planSavedToast := [],
        localStorage := (localStorage s)
          (LS_plan := None, LS_progress := None, LS_history := None, LS_ramadanDay := None) \<rparr>"

text \<open>\<^verbatim>\<open>const goal = plan?.goalKhatmah ?? clamp(Number(effectiveGoal), 1, 50);\<close>\<close>

definition activeGoal :: "platform \<Rightarrow> state \<Rightarrow> jsval" where
  "activeGoal P s =
     (let fallback = Number (clamp (ToNumber P (effectiveGoal s)) (Fin 1) (Fin 50))
      in case plan s of
           None \<Rightarrow> fallback
         | Some p \<Rightarrow> if nullish (goalKhatmah p) then fallback else goalKhatmah p)"

text \<open>The new value of \<^verbatim>\<open>pagesCompleted\<close> in \<^verbatim>\<open>updateProgress\<close>.\<close>

definition newPagesCompleted :: "platform \<Rightarrow> state \<Rightarrow> jsnum" where
  "newPagesCompleted P s =
     (let goal = activeGoal P s
      in if trackMode s = onPage then
           (let page = clamp (inputPage s) (Fin 1) QURAN_PAGES
            in if goal = Number (Fin 1) then jsub page (Fin 1)
               else clamp (jsub page (Fin 1)) (Fin 0) (totalPages P s))
         else clamp (inputReadPages s) (Fin 0) (totalPages P s))"

definition newLabel :: "platform \<Rightarrow> state \<Rightarrow> string" where
  "newLabel P s =
     (if trackMode s = onPage
      then ''Day '' @ NumberToString P (ramadanDay s) @ '' '' @ em_dash @ '' Page ''
             @ NumberToString P (clamp (inputPage s) (Fin 1) QURAN_PAGES)
      else ''Day '' @ NumberToString P (ramadanDay s) @ '' '' @ em_dash @ '' ''
             @ NumberToString P (newPagesCompleted P s) @ '' pages read'')"

text \<open>\<^verbatim>\<open>updateProgress\<close>, with the value of \<^verbatim>\<open>Date.now()\<close> as an argument.\<close>

definition updateProgress :: "platform \<Rightarrow> jsnum \<Rightarrow> state \<Rightarrow> state" where
  "updateProgress P now s =
     (let pagesCompleted' = newPagesCompleted P s;
          newProgress = \<lparr> pagesCompleted = pagesCompleted', lastUpdatedAt = Number now \<rparr>;
          newItem = HistoryItem now (newLabel P s) pagesCompleted';
          nextHistory = take 10 (newItem # history s)
      in s\<lparr> progress := newProgress,
            history := nextHistory,
            localStorage := (localStorage s)
              (LS_progress \<mapsto> JSON_stringify P (progress_object newProgress),
               LS_history \<mapsto> JSON_stringify P (Array nextHistory)) \<rparr>)"

text \<open>\<^verbatim>\<open>function setRamadanDayPersist(n: number) {
    const v = clamp(n, 1, daysTotalFromPlan);
    setRamadanDay(v);
    localStorage.setItem(LS_KEYS.ramadanDay, String(v)); }\<close>
  \<^verbatim>\<open>Math.min\<close> converts its bound to a number.\<close>

definition setRamadanDayPersist :: "platform \<Rightarrow> jsnum \<Rightarrow> state \<Rightarrow> state" where
  "setRamadanDayPersist P n s =
     (let v = clamp n (Fin 1) (ToNumber P (daysTotalFromPlan P s))
      in s\<lparr> ramadanDay := v,
            localStorage := (localStorage s)(LS_ramadanDay \<mapsto> NumberToString P v) \<rparr>)"

text \<open>What the user can do: the \<^verbatim>\<open>onClick\<close> and \<^verbatim>\<open>onChange\<close> handlers of the page, and
  the timer that clears the toast.  A number input hands over \<^verbatim>\<open>Number(e.target.value)\<close>.\<close>

datatype event =
    ToggleTheme
  | SetTab Tab
  | SetGoalPreset GoalPreset
  | SetCustomGoal jsnum
  | SetDaysPreset DaysPreset
  | SetCustomDays jsnum
  | SetSessions SessionsPreset
  | SavePlan
  | ClearToast
  | ResetAll
  | SetRamadanDayPersist jsnum
  | SetTrackMode TrackMode
  | SetInputPage jsnum
  | SetInputReadPages jsnum
  | UpdateProgress jsnum

fun sessions_number :: "SessionsPreset \<Rightarrow> jsval" where
  "sessions_number Sessions1 = Number (Fin 1)"
| "sessions_number Sessions2 = Number (Fin 2)"
| "sessions_number Sessions3 = Number (Fin 3)"
| "sessions_number Sessions5 = Number (Fin 5)"

fun handle :: "platform \<Rightarrow> state \<Rightarrow> event \<Rightarrow> state" where
  "handle P s ToggleTheme =
     themeEffect (s\<lparr>theme := (if theme s = light then dark else light)\<rparr>)"
| "handle P s (SetTab t) = s\<lparr>tab := t\<rparr>"
| "handle P s (SetGoalPreset v) = s\<lparr>goalPreset := v\<rparr>"
| "handle P s (SetCustomGoal n) = s\<lparr>customGoal := Number n\<rparr>"
| "handle P s (SetDaysPreset v) = s\<lparr>daysPreset := v\<rparr>"
| "handle P s (SetCustomDays n) = s\<lparr>customDays := Number n\<rparr>"
| "handle P s (SetSessions v) = s\<lparr>sessions := sessions_number v\<rparr>"
| "handle P s SavePlan = savePlan P s"
| "handle P s ClearToast = s\<lparr>planSavedToast := []\<rparr>"
| "handle P s ResetAll = resetAll s"
| "handle P s (SetRamadanDayPersist n) = setRamadanDayPersist P n s"
| "handle P s (SetTrackMode m) = s\<lparr>trackMode := m\<rparr>"
| "handle P s (SetInputPage n) = s\<lparr>inputPage := n\<rparr>"
| "handle P s (SetInputReadPages n) = s\<lparr>inputReadPages := n\<rparr>"
| "handle P s (UpdateProgress now) = updateProgress P now s"

text \<open>A session: the events in order, each handler running to completion.\<close>

definition run :: "platform \<Rightarrow> state \<Rightarrow> event list \<Rightarrow> state" where
  "run P s evs = foldl (handle P) s evs"

section \<open>The ranges and the read failures the claims speak of\<close>

text \<open>The day cursor lies in \<open>[1, daysTotal]\<close> of the active plan (the saved plan's day
  total, else the clamped live one).\<close>

definition cursor_in_range :: "platform \<Rightarrow> state \<Rightarrow> bool" where
  "cursor_in_range P s =
     (jle (Fin 1) (ramadanDay s) \<and> jle (ramadanDay s) (ToNumber P (daysTotalFromPlan P s)))"

text \<open>The pages completed lie in \<open>[0, 604 * goal]\<close> of the active plan (the saved plan's
  goal, else the clamped live one).\<close>

definition progress_in_range :: "platform \<Rightarrow> state \<Rightarrow> bool" where
  "progress_in_range P s =
     (jle (Fin 0) (pagesCompleted (progress s))
      \<and> jle (pagesCompleted (progress s)) (jmul QURAN_PAGES (ToNumber P (activeGoal P s))))"


section \<open>Examples\<close>

text \<open>A stored history of eleven entries: the text, and the array it is the JSON of.\<close>

definition entry_text :: string where
  \<open>entry_text = ''{"at":1700000000000,"label":"Day 1","pagesCompleted":0}''\<close>

definition eleven_entries_text :: string where
  "eleven_entries_text = ''['' @ join_comma (replicate 11 entry_text) @ '']''"

definition eleven_entries :: "jsval list" where
  "eleven_entries = replicate 11 (HistoryItem (Fin 1700000000000) ''Day 1'' (Fin 0))"

text \<open>
  A host for the closed examples.  It reads the texts the examples keep in the store the way
  JavaScript does; the texts it writes are read by no example and are left empty.
\<close>

definition test_host :: platform where
  \<open>test_host =
     \<lparr> JSON_parse = (\<lambda>t.
         if t = ''{"pagesCompleted":5000,"lastUpdatedAt":null}''
         then Inr (Object [(''pagesCompleted'', Number (Fin 5000)), (''lastUpdatedAt'', Null)])
         else if t = ''{"goalKhatmah":1,"daysTotal":0.5,"sessionsPerDay":2}''
         then Inr (Object [(''goalKhatmah'', Number (Fin 1)), (''daysTotal'', Number (Fin 0.5)),
                           (''sessionsPerDay'', Number (Fin 2))])
         else if t = ''{"goalKhatmah":1,"daysTotal":30,"sessionsPerDay":{}}''
         then Inr (Object [(''goalKhatmah'', Number (Fin 1)), (''daysTotal'', Number (Fin 30)),
                           (''sessionsPerDay'', Object [])])
         else if t = eleven_entries_text
         then Inr (Array eleven_entries)
         else Inl SyntaxError),
       JSON_stringify = (\<lambda>v. []),
       StringToNumber = (\<lambda>t. if t = ''100'' then Fin 100 else if t = [] then Fin 0 else NaN),
       NumberToString = (\<lambda>n. []) \<rparr>\<close>

text \<open>Stores: a day cursor of 100; a progress of 5000 pages; a plan of half a day; a plan
  whose sessions are an object; a history of eleven entries; a plan that is not JSON beside
  a day that is not a number.\<close>

definition day100_store :: "string \<rightharpoonup> string" where
  "day100_store = [LS_ramadanDay \<mapsto> ''100'']"

definition progress5000_store :: "string \<rightharpoonup> string" where
  \<open>progress5000_store = [LS_progress \<mapsto> ''{"pagesCompleted":5000,"lastUpdatedAt":null}'']\<close>

definition halfday_store :: "string \<rightharpoonup> string" where
  \<open>halfday_store = [LS_plan \<mapsto> ''{"goalKhatmah":1,"daysTotal":0.5,"sessionsPerDay":2}'']\<close>

text \<open>The state the loader makes of the store with the plan of half a day.\<close>

definition halfday_loaded :: state where
  "halfday_loaded =
     (initialState halfday_store)
       \<lparr> plan := Some \<lparr>goalKhatmah = Number (Fin 1), daysTotal = Number (Fin 0.5),
                         sessionsPerDay = Number (Fin 2)\<rparr>,
         daysPreset := DaysCustom, customDays := Number (Fin 0.5) \<rparr>"



definition eleven_store :: "string \<rightharpoonup> string" where
  "eleven_store = [LS_history \<mapsto> eleven_entries_text]"

text \<open>The state the loader makes of it.\<close>

definition eleven_loaded :: state where
  "eleven_loaded = (initialState eleven_store)\<lparr>history := eleven_entries\<rparr>"


text \<open>A session from an empty store: the user sets day 15, switches to the pages-read mode,
  enters \<open>p\<close> pages and updates.\<close>

definition day15_session :: "real \<Rightarrow> state" where
  "day15_session p =
     run test_host (initialState Map.empty)
       [SetRamadanDayPersist (Fin 15), SetTrackMode readPages, SetInputReadPages (Fin p),
        UpdateProgress (Fin 1700000000000)]"

text \<open>The user records 1000 pages under a goal of two readings, then picks one reading and
  saves the plan.\<close>

definition save_after_update :: state where
  "save_after_update =
     run test_host (initialState Map.empty)
       [SetGoalPreset Goal2, SetTrackMode readPages, SetInputReadPages (Fin 1000),
        UpdateProgress (Fin 1700000000000), SetGoalPreset Goal1, SavePlan]"

text \<open>The user saves the plan of one reading, picks three readings without saving, and
  records 1000 pages.\<close>

definition update_over_saved_plan :: state where
  "update_over_saved_plan =
     run test_host (initialState Map.empty)
       [SavePlan, SetGoalPreset Goal3, SetTrackMode readPages, SetInputReadPages (Fin 1000),
        UpdateProgress (Fin 1700000000000)]"

text \<open>The user sets day 30 of the default thirty, picks 29 days and saves the plan.\<close>

definition save_shorter_plan :: state where
  "save_shorter_plan =
     run test_host (initialState Map.empty)
       [SetRamadanDayPersist (Fin 30), SetDaysPreset Days29, SavePlan]"

section \<open>Facts about numbers\<close>

lemmas num_defs = clamp_def isNaN_def Math_min_def Math_max_def QURAN_PAGES_def jsub_def
  jgt_def jlt_def jge_def inf_of_def nullish_def
lemmas derived_defs = daysTotalFromPlan_def effectiveDays_def effectiveGoal_def totalPages_def
  sessionsFromPlan_def activeGoal_def

lemma clamp_Fin_range:
  assumes "lo \<le> hi"
  shows "\<exists>x. clamp n (Fin lo) (Fin hi) = Fin x \<and> lo \<le> x \<and> x \<le> hi"
  using assms by (cases n) (auto simp: clamp_def isNaN_def Math_min_def Math_max_def)

text \<open>The fields of \<open>trackTotals\<close>, one equation each.\<close>

lemma tt_dTotal: "dTotal (trackTotals P s) = clamp (ToNumber P (daysTotalFromPlan P s)) (Fin 1) (Fin 60)"
  by (simp add: trackTotals_def Let_def)

lemma tt_dayNow: "dayNow (trackTotals P s) = clamp (ramadanDay s) (Fin 1) (dTotal (trackTotals P s))"
  by (simp add: trackTotals_def Let_def)

lemma tt_completed: "completed (trackTotals P s) = clamp (pagesCompleted (progress s)) (Fin 0) (totalPages P s)"
  by (simp add: trackTotals_def Let_def)

lemma tt_left: "left (trackTotals P s) = Math_max (Fin 0) (jsub (totalPages P s) (completed (trackTotals P s)))"
  by (simp add: trackTotals_def Let_def)

lemma tt_daysLeft: "daysLeft (trackTotals P s) =
   Math_max (Fin 0) (jadd (jsub (dTotal (trackTotals P s)) (dayNow (trackTotals P s))) (Fin 1))"
  by (simp add: trackTotals_def Let_def)

lemma tt_neededPerDay: "neededPerDay (trackTotals P s) =
   (if jgt (daysLeft (trackTotals P s)) (Fin 0)
    then jdiv (left (trackTotals P s)) (daysLeft (trackTotals P s)) else left (trackTotals P s))"
  by (simp add: trackTotals_def Let_def)

lemma tt_neededPerSalah: "neededPerSalah (trackTotals P s) =
   (if sessionsFromPlan s = Number (Fin 5) then Some (jdiv (neededPerDay (trackTotals P s)) (Fin 5)) else None)"
  by (simp add: trackTotals_def Let_def)

lemma tt_ideal: "idealCompletedByNow (trackTotals P s) =
   jmul (jdiv (totalPages P s) (dTotal (trackTotals P s))) (dayNow (trackTotals P s))"
  by (simp add: trackTotals_def Let_def)

lemma tt_status: "status (trackTotals P s) =
   (let delta = jsub (completed (trackTotals P s)) (idealCompletedByNow (trackTotals P s))
    in if jge delta (Fin 10) then ontrack else if jge delta (Fin (- 10)) then slight else behind)"
  by (simp add: trackTotals_def Let_def)

lemma totalPages_range: "\<exists>t. totalPages P s = Fin t \<and> 604 \<le> t \<and> t \<le> 30200"
proof -
  obtain g where g: "clamp (ToNumber P (effectiveGoal s)) (Fin 1) (Fin 50) = Fin g" "1 \<le> g" "g \<le> 50"
    using clamp_Fin_range[of 1 50] by force
  then show ?thesis by (simp add: totalPages_def QURAN_PAGES_def)
qed

lemma dTotal_range: "\<exists>d. dTotal (trackTotals P s) = Fin d \<and> 1 \<le> d \<and> d \<le> 60"
  unfolding tt_dTotal using clamp_Fin_range[of 1 60] by simp

lemma dayNow_range:
  "\<exists>d n. dTotal (trackTotals P s) = Fin d \<and> dayNow (trackTotals P s) = Fin n \<and> 1 \<le> n \<and> n \<le> d \<and> d \<le> 60"
proof -
  obtain d where d: "dTotal (trackTotals P s) = Fin d" "1 \<le> d" "d \<le> 60"
    using dTotal_range by blast
  obtain n where "clamp (ramadanDay s) (Fin 1) (Fin d) = Fin n" "1 \<le> n" "n \<le> d"
    using clamp_Fin_range[OF d(2)] by blast
  with d show ?thesis by (simp add: tt_dayNow)
qed

lemma daysLeft_ge_1:
  "\<exists>x. daysLeft (trackTotals P s) = Fin x \<and> 1 \<le> x"
proof -
  obtain d n where "dTotal (trackTotals P s) = Fin d" "dayNow (trackTotals P s) = Fin n" "1 \<le> n" "n \<le> d"
    using dayNow_range by blast
  then show ?thesis by (simp add: tt_daysLeft jsub_def Math_max_def)
qed

lemma pr_fields:
  "total (planResults P s) = jmul QURAN_PAGES (clamp (ToNumber P (effectiveGoal s)) (Fin 1) (Fin 50))"
  "perDay (planResults P s) = jdiv (total (planResults P s)) (plan_d (planResults P s))"
  "perSession (planResults P s) = jdiv (perDay (planResults P s)) (ToNumber P (sessions s))"
  "perSalah (planResults P s) =
     (if sessions s = Number (Fin 5) then Some (jdiv (perDay (planResults P s)) (Fin 5)) else None)"
  "plan_g (planResults P s) = clamp (ToNumber P (effectiveGoal s)) (Fin 1) (Fin 50)"
  "plan_d (planResults P s) = clamp (ToNumber P (effectiveDays s)) (Fin 1) (Fin 60)"
  "plan_s (planResults P s) = sessions s"
  by (simp_all add: planResults_def Let_def)

lemma up_fields:
  "progress (updateProgress P now s) =
     \<lparr> pagesCompleted = newPagesCompleted P s, lastUpdatedAt = Number now \<rparr>"
  "history (updateProgress P now s) =
     take 10 (HistoryItem now (newLabel P s) (newPagesCompleted P s) # history s)"
  by (simp_all add: updateProgress_def Let_def)

lemma run_snoc: "run P s (evs @ [e]) = handle P (run P s evs) e"
  by (simp add: run_def)

lemma history_handle:
  "history (handle P s e) =
     (case e of UpdateProgress now \<Rightarrow> take 10 (HistoryItem now (newLabel P s) (newPagesCompleted P s) # history s)
      | ResetAll \<Rightarrow> []
      | _ \<Rightarrow> history s)"
  by (cases e) (simp_all add: up_fields(2) resetAll_def savePlan_def setRamadanDayPersist_def themeEffect_def Let_def)

lemma history_bounded_after_update:
  "UpdateProgress now \<in> set evs \<Longrightarrow> length (history (run P s evs)) \<le> 10"
proof (induction evs rule: rev_induct)
  case Nil
  then show ?case by simp
next
  case (snoc e evs)
  have "history (run P s (evs @ [e])) =
     (case e of UpdateProgress n \<Rightarrow>
          take 10 (HistoryItem n (newLabel P (run P s evs)) (newPagesCompleted P (run P s evs))
                   # history (run P s evs))
      | ResetAll \<Rightarrow> []
      | _ \<Rightarrow> history (run P s evs))"
    by (simp only: run_snoc history_handle)
  with snoc show ?case
    by (cases e) auto
qed

lemma history_bound_preserved:
  "length (history s) \<le> 10 \<Longrightarrow> length (history (run P s evs)) \<le> 10"
proof (induction evs rule: rev_induct)
  case Nil
  then show ?case by (simp add: run_def)
next
  case (snoc e evs)
  have "history (run P s (evs @ [e])) =
     (case e of UpdateProgress n \<Rightarrow>
          take 10 (HistoryItem n (newLabel P (run P s evs)) (newPagesCompleted P (run P s evs))
                   # history (run P s evs))
      | ResetAll \<Rightarrow> []
      | _ \<Rightarrow> history (run P s evs))"
    by (simp only: run_snoc history_handle)
  with snoc show ?case
    by (cases e) auto
qed

lemma jle_NaN_right [simp]: "\<not> jle a NaN"
  by (cases a) simp_all

lemma jgt_NaN [simp]: "\<not> jgt NaN b"
  by (simp add: jgt_def jlt_def)

lemma clamp_between:
  assumes "jle lo hi"
  shows "jle lo (clamp n lo hi) \<and> jle (clamp n lo hi) hi"
  using assms
  by (cases n; cases lo; cases hi) (auto simp: clamp_def isNaN_def Math_min_def Math_max_def)

section \<open>Facts about the loader\<close>

lemmas LS_defs = LS_theme_def LS_plan_def LS_progress_def LS_history_def LS_ramadanDay_def
lemmas load_defs = load_def loadTheme_def loadPlan_def loadProgress_def loadHistory_def
  loadRamadanDay_def planIsComplete_def safeJsonParse_def bindE_def


lemma getProp_truthy: "truthy v \<Longrightarrow> \<exists>x. getProp v k = Inr x"
  by (cases v) simp_all

lemma planIsComplete_total: "\<exists>b. planIsComplete v = Inr b"
proof (cases "truthy v")
  case False
  then have "planIsComplete v = Inr False" by (simp add: planIsComplete_def)
  then show ?thesis by blast
next
  case True
  obtain g d x where "getProp v ''goalKhatmah'' = Inr g" "getProp v ''daysTotal'' = Inr d"
      "getProp v ''sessionsPerDay'' = Inr x"
    using getProp_truthy[OF True] by meson
  with True show ?thesis by (auto simp: planIsComplete_def bindE_def)
qed

lemma planIsComplete_True: "planIsComplete v = Inr True \<Longrightarrow> truthy v"
  by (auto simp: planIsComplete_def split: if_splits)

lemma loadPlan_total:
  "\<exists>s'. loadPlan P s = Inr s' \<and> progress s' = progress s \<and> history s' = history s
      \<and> ramadanDay s' = ramadanDay s \<and> localStorage s' = localStorage s
      \<and> (safeJsonParse P (localStorage s LS_plan) = Null \<longrightarrow> s' = s)"
proof -
  let ?v = "safeJsonParse P (localStorage s LS_plan)"
  obtain b where b: "planIsComplete ?v = Inr b"
    using planIsComplete_total by blast
  show ?thesis
  proof (cases b)
    case False
    with b show ?thesis by (simp add: loadPlan_def bindE_def)
  next
    case True
    with b have tr: "truthy ?v" by (auto intro: planIsComplete_True)
    then have nn: "?v \<noteq> Null" by auto
    obtain g d x where "getProp ?v ''goalKhatmah'' = Inr g" "getProp ?v ''daysTotal'' = Inr d"
      "getProp ?v ''sessionsPerDay'' = Inr x"
      using getProp_truthy[OF tr] by meson
    with b True nn show ?thesis
      by (simp add: loadPlan_def bindE_def Let_def)
  qed
qed

lemma loadProgress_total:
  "\<exists>s'. loadProgress P s = Inr s' \<and> plan s' = plan s \<and> history s' = history s
      \<and> ramadanDay s' = ramadanDay s \<and> localStorage s' = localStorage s
      \<and> goalPreset s' = goalPreset s \<and> customGoal s' = customGoal s
      \<and> daysPreset s' = daysPreset s \<and> customDays s' = customDays s
      \<and> sessions s' = sessions s
      \<and> ((\<forall>n. getProp (safeJsonParse P (localStorage s LS_progress)) ''pagesCompleted''
                 \<noteq> Inr (Number n)) \<longrightarrow> s' = s)"
proof -
  let ?v = "safeJsonParse P (localStorage s LS_progress)"
  show ?thesis
  proof (cases "truthy ?v")
    case False
    then show ?thesis by (simp add: loadProgress_def)
  next
    case True
    obtain pc t where pt: "getProp ?v ''pagesCompleted'' = Inr pc" "getProp ?v ''lastUpdatedAt'' = Inr t"
      using getProp_truthy[OF True] by meson
    with True show ?thesis
      by (cases pc) (simp_all add: loadProgress_def bindE_def)
  qed
qed

lemma loadTheme_frame:
  "plan (loadTheme s) = plan s" "progress (loadTheme s) = progress s"
  "history (loadTheme s) = history s" "ramadanDay (loadTheme s) = ramadanDay s"
  "localStorage (loadTheme s) = localStorage s"
  "goalPreset (loadTheme s) = goalPreset s" "customGoal (loadTheme s) = customGoal s"
  "daysPreset (loadTheme s) = daysPreset s" "customDays (loadTheme s) = customDays s"
  "sessions (loadTheme s) = sessions s"
  by (simp_all add: loadTheme_def Let_def)

lemma loadHistory_frame:
  "plan (loadHistory P s) = plan s" "progress (loadHistory P s) = progress s"
  "ramadanDay (loadHistory P s) = ramadanDay s"
  "localStorage (loadHistory P s) = localStorage s"
  "goalPreset (loadHistory P s) = goalPreset s" "customGoal (loadHistory P s) = customGoal s"
  "daysPreset (loadHistory P s) = daysPreset s" "customDays (loadHistory P s) = customDays s"
  "sessions (loadHistory P s) = sessions s"
  by (simp_all add: loadHistory_def split: jsval.splits)


lemma loadRamadanDay_frame:
  "plan (loadRamadanDay P s) = plan s" "progress (loadRamadanDay P s) = progress s"
  "history (loadRamadanDay P s) = history s"
  "localStorage (loadRamadanDay P s) = localStorage s"
  "goalPreset (loadRamadanDay P s) = goalPreset s" "customGoal (loadRamadanDay P s) = customGoal s"
  "daysPreset (loadRamadanDay P s) = daysPreset s" "customDays (loadRamadanDay P s) = customDays s"
  "sessions (loadRamadanDay P s) = sessions s"
  by (simp_all add: loadRamadanDay_def Let_def)

lemma loadRamadanDay_day:
  "ramadanDay (loadRamadanDay P s) =
     (let n = ToNumber P (case localStorage s LS_ramadanDay of None \<Rightarrow> Null | Some t \<Rightarrow> String t)
      in if n \<noteq> NaN \<and> jgt n (Fin 0) then n else ramadanDay s)"
  by (simp add: loadRamadanDay_def Let_def isNaN_def)

lemma load_steps:
  "\<exists>s1 s2. loadPlan P (loadTheme s) = Inr s1 \<and> loadProgress P s1 = Inr s2
      \<and> load P s = Inr (loadRamadanDay P (loadHistory P s2))
      \<and> localStorage s1 = localStorage s \<and> localStorage s2 = localStorage s
      \<and> history s2 = history s \<and> ramadanDay s2 = ramadanDay s
      \<and> plan s2 = plan s1 \<and> goalPreset s2 = goalPreset s1 \<and> customGoal s2 = customGoal s1
      \<and> daysPreset s2 = daysPreset s1 \<and> customDays s2 = customDays s1
      \<and> sessions s2 = sessions s1 \<and> progress s1 = progress s
      \<and> (safeJsonParse P (localStorage s LS_plan) = Null \<longrightarrow> s1 = loadTheme s)
      \<and> ((\<forall>n. getProp (safeJsonParse P (localStorage s LS_progress)) ''pagesCompleted''
                 \<noteq> Inr (Number n)) \<longrightarrow> s2 = s1)"
proof -
  obtain s1 where s1: "loadPlan P (loadTheme s) = Inr s1" "progress s1 = progress (loadTheme s)"
      "history s1 = history (loadTheme s)" "ramadanDay s1 = ramadanDay (loadTheme s)"
      "localStorage s1 = localStorage (loadTheme s)"
      "safeJsonParse P (localStorage (loadTheme s) LS_plan) = Null \<longrightarrow> s1 = loadTheme s"
    using loadPlan_total[of P "loadTheme s"] by blast
  obtain s2 where s2: "loadProgress P s1 = Inr s2" "plan s2 = plan s1" "history s2 = history s1"
      "ramadanDay s2 = ramadanDay s1" "localStorage s2 = localStorage s1"
      "goalPreset s2 = goalPreset s1" "customGoal s2 = customGoal s1"
      "daysPreset s2 = daysPreset s1" "customDays s2 = customDays s1"
      "sessions s2 = sessions s1"
      "(\<forall>n. getProp (safeJsonParse P (localStorage s1 LS_progress)) ''pagesCompleted''
                 \<noteq> Inr (Number n)) \<longrightarrow> s2 = s1"
    using loadProgress_total[of P s1] by blast
  have "load P s = Inr (loadRamadanDay P (loadHistory P s2))"
    using s1(1) s2(1) by (simp add: load_def bindE_def)
  with s1 s2 show ?thesis
    by (simp add: loadTheme_frame)
qed

lemma getProp_Number_Object:
  "getProp v k = Inr (Number n) \<Longrightarrow> \<exists>kvs. v = Object kvs"
  by (cases v) simp_all

lemma loadProgress_numeric:
  assumes "getProp (safeJsonParse P (localStorage s LS_progress)) ''pagesCompleted'' = Inr (Number n)"
  shows "\<exists>t. loadProgress P s = Inr (s\<lparr>progress := \<lparr>pagesCompleted = n, lastUpdatedAt = t\<rparr>\<rparr>)"
proof -
  obtain kvs where v: "safeJsonParse P (localStorage s LS_progress) = Object kvs"
    using getProp_Number_Object[OF assms] by blast
  show ?thesis
    using assms by (auto simp: loadProgress_def v bindE_def)
qed

lemma load_progress_numeric:
  assumes "getProp (safeJsonParse P (ls LS_progress)) ''pagesCompleted'' = Inr (Number n)"
  shows "\<exists>s'. load P (initialState ls) = Inr s' \<and> pagesCompleted (progress s') = n"
proof -
  obtain s1 s2 where st: "loadProgress P s1 = Inr s2"
      "load P (initialState ls) = Inr (loadRamadanDay P (loadHistory P s2))"
      "localStorage s1 = localStorage (initialState ls)"
    using load_steps[of P "initialState ls"] by blast
  have "localStorage s1 = ls" using st(3) by (simp add: initialState_def)
  then obtain t where "loadProgress P s1 = Inr (s1\<lparr>progress := \<lparr>pagesCompleted = n, lastUpdatedAt = t\<rparr>\<rparr>)"
    using loadProgress_numeric[of P s1 n] assms by auto
  with st(1) have "pagesCompleted (progress s2) = n" by auto
  with st(2) show ?thesis
    by (simp add: loadRamadanDay_frame loadHistory_frame)
qed

lemma load_day_numeric:
  assumes "ls LS_ramadanDay = Some t" and "jgt (StringToNumber P t) (Fin 0)"
  shows "\<exists>s'. load P (initialState ls) = Inr s' \<and> ramadanDay s' = StringToNumber P t"
proof -
  obtain s1 s2 where st:
      "load P (initialState ls) = Inr (loadRamadanDay P (loadHistory P s2))"
      "localStorage s2 = localStorage (initialState ls)"
    using load_steps[of P "initialState ls"] by blast
  have "localStorage s2 = ls" using st(2) by (simp add: initialState_def)
  moreover have "StringToNumber P t \<noteq> NaN" using assms(2) by auto
  ultimately have "ramadanDay (loadRamadanDay P (loadHistory P s2)) = StringToNumber P t"
    using assms by (simp add: loadRamadanDay_day loadHistory_frame Let_def)
  with st(1) show ?thesis by simp
qed

lemma eleven_text_not_object: "eleven_entries_text \<noteq> CHR ''{'' # r" "eleven_entries_text \<noteq> []"
  by (simp_all add: eleven_entries_text_def)

lemma parse_eleven: "safeJsonParse test_host (Some eleven_entries_text) = Array eleven_entries"
  by (simp add: safeJsonParse_def test_host_def eleven_text_not_object)

lemma load_eleven: "load test_host (initialState eleven_store) = Inr eleven_loaded"
proof -
  have k: "eleven_store LS_history = Some eleven_entries_text" "eleven_store LS_plan = None"
      "eleven_store LS_progress = None" "eleven_store LS_ramadanDay = None"
      "eleven_store LS_theme = None"
    by (simp_all add: eleven_store_def LS_defs)
  have n: "safeJsonParse test_host None = Null"
    by (simp add: safeJsonParse_def)
  show ?thesis
    by (simp add: load_def loadTheme_def loadPlan_def loadProgress_def loadHistory_def
          loadRamadanDay_def planIsComplete_def bindE_def initialState_def k n parse_eleven
          eleven_loaded_def eleven_entries_def Let_def num_defs)
qed



lemma load_day100:
  "load test_host (initialState day100_store) = Inr ((initialState day100_store)\<lparr>ramadanDay := Fin 100\<rparr>)"
  by (simp add: load_defs LS_defs day100_store_def initialState_def test_host_def Let_def num_defs)

lemma load_progress5000:
  "load test_host (initialState progress5000_store) =
     Inr ((initialState progress5000_store)\<lparr>progress := \<lparr>pagesCompleted = Fin 5000, lastUpdatedAt = Null\<rparr>\<rparr>)"
  by (simp add: load_defs LS_defs progress5000_store_def initialState_def test_host_def Let_def num_defs)

lemma load_halfday: "load test_host (initialState halfday_store) = Inr halfday_loaded"
  by (simp add: load_defs LS_defs halfday_store_def halfday_loaded_def initialState_def
        test_host_def Let_def num_defs)

section \<open>Facts about the handlers\<close>

lemmas handler_defs = run_def initialState_def setRamadanDayPersist_def savePlan_def
  updateProgress_def newPagesCompleted_def resetAll_def Let_def

lemma setRamadanDayPersist_fields:
  "ramadanDay (setRamadanDayPersist P n s) = clamp n (Fin 1) (ToNumber P (daysTotalFromPlan P s))"
  "daysTotalFromPlan P (setRamadanDayPersist P n s) = daysTotalFromPlan P s"
  "localStorage (setRamadanDayPersist P n s) LS_ramadanDay
     = Some (NumberToString P (ramadanDay (setRamadanDayPersist P n s)))"
  by (simp_all add: setRamadanDayPersist_def Let_def daysTotalFromPlan_def effectiveDays_def
        split: DaysPreset.split option.split)

lemma daysTotal_no_plan:
  "plan s = None \<Longrightarrow> \<exists>d. ToNumber P (daysTotalFromPlan P s) = Fin d \<and> 1 \<le> d \<and> d \<le> 60"
  using clamp_Fin_range[of 1 60 "ToNumber P (effectiveDays s)"]
  by (auto simp: daysTotalFromPlan_def)

lemma daysTotal_savePlan:
  "\<exists>d. ToNumber P (daysTotalFromPlan P (savePlan P s)) = Fin d \<and> 1 \<le> d \<and> d \<le> 60"
  using clamp_Fin_range[of 1 60 "ToNumber P (effectiveDays s)"]
  by (auto simp: daysTotalFromPlan_def savePlan_def Let_def nullish_def)

lemma updateProgress_frame:
  "plan (updateProgress P now s) = plan s"
  "goalPreset (updateProgress P now s) = goalPreset s"
  "customGoal (updateProgress P now s) = customGoal s"
  by (simp_all add: updateProgress_def Let_def)

lemma activeGoal_updateProgress: "activeGoal P (updateProgress P now s) = activeGoal P s"
  by (simp add: activeGoal_def effectiveGoal_def updateProgress_frame
        split: GoalPreset.split option.split)

lemma newPagesCompleted_range:
  "\<exists>x t. newPagesCompleted P s = Fin x \<and> totalPages P s = Fin t \<and> 0 \<le> x \<and> x \<le> t"
proof -
  obtain t where t: "totalPages P s = Fin t" "604 \<le> t"
    using totalPages_range by blast
  obtain page where page: "clamp (inputPage s) (Fin 1) QURAN_PAGES = Fin page" "1 \<le> page" "page \<le> 604"
    using clamp_Fin_range[of 1 604 "inputPage s"] by (auto simp: QURAN_PAGES_def)
  obtain r where r: "clamp (inputReadPages s) (Fin 0) (Fin t) = Fin r" "0 \<le> r" "r \<le> t"
    using clamp_Fin_range[of 0 t "inputReadPages s"] t(2) by auto
  obtain q where q: "clamp (Fin (page - 1)) (Fin 0) (Fin t) = Fin q" "0 \<le> q" "q \<le> t"
    using clamp_Fin_range[of 0 t "Fin (page - 1)"] t(2) by auto
  show ?thesis
    using t page r q by (auto simp: newPagesCompleted_def Let_def jsub_def)
qed

section \<open>The claims\<close>

lemma completed_ideal_finite:
  "\<exists>c i. completed (trackTotals P s) = Fin c \<and> idealCompletedByNow (trackTotals P s) = Fin i"
proof -
  obtain t where t: "totalPages P s = Fin t" "604 \<le> t"
    using totalPages_range by blast
  obtain c where c: "clamp (pagesCompleted (progress s)) (Fin 0) (Fin t) = Fin c"
    using clamp_Fin_range[of 0 t] t(2) by force
  obtain d n where d: "dTotal (trackTotals P s) = Fin d" "dayNow (trackTotals P s) = Fin n"
      "1 \<le> n" "n \<le> d"
    using dayNow_range by blast
  then have "d \<noteq> 0" by simp
  then show ?thesis
    using t c d by (simp add: tt_completed tt_ideal)
qed

lemma day15_state:
  "ramadanDay (day15_session p) = Fin 15"
  "plan (day15_session p) = None"
  "goalPreset (day15_session p) = Goal1"
  "daysPreset (day15_session p) = Days30"
  "sessions (day15_session p) = Number (Fin 2)"
  "0 \<le> p \<Longrightarrow> p \<le> 604 \<Longrightarrow> pagesCompleted (progress (day15_session p)) = Fin p"
  by (simp_all add: day15_session_def run_def initialState_def setRamadanDayPersist_def
        updateProgress_def newPagesCompleted_def Let_def num_defs derived_defs)

lemma day15_completed:
  "0 \<le> p \<Longrightarrow> p \<le> 604 \<Longrightarrow> completed (trackTotals test_host (day15_session p)) = Fin p"
  by (simp add: tt_completed day15_state num_defs derived_defs)

lemma day15_ideal: "idealCompletedByNow (trackTotals test_host (day15_session p)) = Fin 302"
  by (simp add: tt_ideal tt_dayNow tt_dTotal day15_state num_defs derived_defs)

text \<open>
  \<^bold>\<open>C1.\<close>  The tracking status is decided by the first matching test on
  \<open>delta = completed - idealCompletedByNow\<close>: on track when \<open>delta \<ge> 10\<close>, slightly behind
  when \<open>delta \<ge> -10\<close>, behind otherwise.  So a delta of 10 is on track, 9.999 and -10 are
  slightly behind and -10.001 is behind.  Both terms of the delta are finite numbers in
  every state.  The source spells the three results \<^verbatim>\<open>"ontrack"\<close>, \<^verbatim>\<open>"slight"\<close> and
  \<^verbatim>\<open>"behind"\<close>.
\<close>

theorem status_classification:
  "\<exists>c i. completed (trackTotals P s) = Fin c \<and> idealCompletedByNow (trackTotals P s) = Fin i
     \<and> jsub (completed (trackTotals P s)) (idealCompletedByNow (trackTotals P s)) = Fin (c - i)
     \<and> status (trackTotals P s) =
         (if c - i \<ge> 10 then ontrack else if c - i \<ge> - 10 then slight else behind)
     \<and> (c - i = 10 \<longrightarrow> status (trackTotals P s) = ontrack)
     \<and> (c - i = 9.999 \<longrightarrow> status (trackTotals P s) = slight)
     \<and> (c - i = - 10 \<longrightarrow> status (trackTotals P s) = slight)
     \<and> (c - i = - 10.001 \<longrightarrow> status (trackTotals P s) = behind)"
proof -
  obtain c i where ci: "completed (trackTotals P s) = Fin c"
      "idealCompletedByNow (trackTotals P s) = Fin i"
    using completed_ideal_finite by blast
  have "status (trackTotals P s) =
         (if c - i \<ge> 10 then ontrack else if c - i \<ge> - 10 then slight else behind)"
    by (simp add: tt_status ci jsub_def jge_def Let_def)
  with ci show ?thesis by (auto simp: jsub_def)
qed

text \<open>On day 15 of 30 of one reading the ideal is 302 pages; 312, 311.999, 292 and 291.999
  pages read give the four deltas of the claim.\<close>

theorem status_classification_witness:
  "status (trackTotals test_host (day15_session 312)) = ontrack \<and>
   status (trackTotals test_host (day15_session 311.999)) = slight \<and>
   status (trackTotals test_host (day15_session 292)) = slight \<and>
   status (trackTotals test_host (day15_session 291.999)) = behind"
  using status_classification[of test_host "day15_session 312"]
        status_classification[of test_host "day15_session 311.999"]
        status_classification[of test_host "day15_session 292"]
        status_classification[of test_host "day15_session 291.999"]
  by (auto simp: day15_completed day15_ideal)

text \<open>
  \<^bold>\<open>C2\<close>, as the specification states it, fails: the pages completed are not inside
  \<open>[0, 604 * goal]\<close> of the active plan after every operation.  The loader takes the stored
  number as it is (5000 pages under a goal of one reading); saving a plan leaves the
  progress as it is (1000 pages recorded under two readings, then a plan of one reading is
  saved); and an update clamps against the total of the live goal input, not the saved
  plan's (1000 pages recorded against a saved plan of one reading while the goal input
  says three).
\<close>

theorem pagesCompleted_not_always_in_range:
  "load test_host (initialState progress5000_store)
     = Inr ((initialState progress5000_store)
              \<lparr>progress := \<lparr>pagesCompleted = Fin 5000, lastUpdatedAt = Null\<rparr>\<rparr>)
   \<and> \<not> progress_in_range test_host ((initialState progress5000_store)
              \<lparr>progress := \<lparr>pagesCompleted = Fin 5000, lastUpdatedAt = Null\<rparr>\<rparr>)
   \<and> pagesCompleted (progress save_after_update) = Fin 1000
   \<and> activeGoal test_host save_after_update = Number (Fin 1)
   \<and> \<not> progress_in_range test_host save_after_update
   \<and> pagesCompleted (progress update_over_saved_plan) = Fin 1000
   \<and> activeGoal test_host update_over_saved_plan = Number (Fin 1)
   \<and> \<not> progress_in_range test_host update_over_saved_plan"
  apply (simp add: load_progress5000)
  apply (simp add: progress_in_range_def save_after_update_def update_over_saved_plan_def
      handler_defs num_defs derived_defs)
  done

text \<open>
  \<^bold>\<open>C2, amended.\<close>  Whenever the live goal input agrees with the goal of the active plan (as
  it does when no plan is saved), the progress update leaves the pages completed inside
  \<open>[0, 604 * goal]\<close> of the active plan, and the completed pages of the tracking computation
  lie inside it whatever the state holds.  Saving a plan leaves the progress as it is, and
  the loader takes a stored numeric \<^verbatim>\<open>pagesCompleted\<close> as it is.
\<close>

theorem pagesCompleted_in_range_when_goals_agree:
  "(activeGoal P s = Number (clamp (ToNumber P (effectiveGoal s)) (Fin 1) (Fin 50))
      \<longrightarrow> progress_in_range P (updateProgress P now s)
        \<and> jle (Fin 0) (completed (trackTotals P s))
        \<and> jle (completed (trackTotals P s)) (jmul QURAN_PAGES (ToNumber P (activeGoal P s))))
   \<and> (plan s = None \<longrightarrow> progress_in_range P (updateProgress P now s))
   \<and> progress (savePlan P s) = progress s
   \<and> (getProp (safeJsonParse P (ls LS_progress)) ''pagesCompleted'' = Inr (Number n)
        \<longrightarrow> (\<exists>s'. load P (initialState ls) = Inr s' \<and> pagesCompleted (progress s') = n))"
proof -
  obtain x t where xt: "newPagesCompleted P s = Fin x" "totalPages P s = Fin t" "0 \<le> x" "x \<le> t"
    using newPagesCompleted_range by blast
  obtain y where y: "clamp (pagesCompleted (progress s)) (Fin 0) (Fin t) = Fin y" "0 \<le> y" "y \<le> t"
    using clamp_Fin_range[of 0 t] xt(3,4) by force
  have a: "activeGoal P s = Number (clamp (ToNumber P (effectiveGoal s)) (Fin 1) (Fin 50))
      \<longrightarrow> progress_in_range P (updateProgress P now s)
        \<and> jle (Fin 0) (completed (trackTotals P s))
        \<and> jle (completed (trackTotals P s)) (jmul QURAN_PAGES (ToNumber P (activeGoal P s)))"
  proof
    assume ag: "activeGoal P s = Number (clamp (ToNumber P (effectiveGoal s)) (Fin 1) (Fin 50))"
    have tot: "jmul QURAN_PAGES (ToNumber P (activeGoal P s)) = totalPages P s"
      by (simp add: ag totalPages_def)
    have "progress_in_range P (updateProgress P now s)"
      using xt tot by (simp add: progress_in_range_def activeGoal_updateProgress up_fields(1))
    moreover have "jle (Fin 0) (completed (trackTotals P s))
        \<and> jle (completed (trackTotals P s)) (jmul QURAN_PAGES (ToNumber P (activeGoal P s)))"
      using y xt(2) tot by (simp add: tt_completed)
    ultimately show "progress_in_range P (updateProgress P now s)
        \<and> jle (Fin 0) (completed (trackTotals P s))
        \<and> jle (completed (trackTotals P s)) (jmul QURAN_PAGES (ToNumber P (activeGoal P s)))"
      by blast
  qed
  have b: "plan s = None \<longrightarrow> progress_in_range P (updateProgress P now s)"
    using a by (simp add: activeGoal_def)
  have e: "progress (savePlan P s) = progress s"
    by (simp add: savePlan_def Let_def)
  have f: "getProp (safeJsonParse P (ls LS_progress)) ''pagesCompleted'' = Inr (Number n)
        \<longrightarrow> (\<exists>s'. load P (initialState ls) = Inr s' \<and> pagesCompleted (progress s') = n)"
    using load_progress_numeric by blast
  show ?thesis by (intro conjI a b e f)
qed

theorem pagesCompleted_in_range_when_goals_agree_witness:
  "progress_in_range test_host (day15_session 312)
   \<and> pagesCompleted (progress (day15_session 312)) = Fin 312
   \<and> activeGoal test_host (day15_session 312) = Number (Fin 1)
   \<and> jle (completed (trackTotals test_host (day15_session 312))) (Fin 604)"
  using pagesCompleted_in_range_when_goals_agree[of test_host "run test_host (initialState Map.empty)
       [SetRamadanDayPersist (Fin 15), SetTrackMode readPages, SetInputReadPages (Fin 312)]"
       "Fin 1700000000000"]
    pagesCompleted_in_range_when_goals_agree[of test_host "day15_session 312" "Fin 1700000000000"]
  by (simp add: day15_session_def handler_defs num_defs derived_defs)

text \<open>
  \<^bold>\<open>C3\<close>, as the specification states it, fails: the history does not hold at most ten
  entries from every initial history.  The loader keeps up to thirty stored entries, and
  until the first update they stay: a store with eleven entries is restored as eleven, and
  they are still eleven after the user opens the track tab, sets the day and saves a plan.
\<close>

theorem restored_history_exceeds_ten:
  "load test_host (initialState eleven_store) = Inr eleven_loaded
   \<and> length (history eleven_loaded) = 11
   \<and> length (history (run test_host eleven_loaded
         [SetTab tab_track, SetRamadanDayPersist (Fin 3), SavePlan])) = 11
   \<and> \<not> length (history (run test_host eleven_loaded
         [SetTab tab_track, SetRamadanDayPersist (Fin 3), SavePlan])) \<le> 10"
proof -
  have "length (history eleven_loaded) = 11"
    by (simp add: eleven_loaded_def eleven_entries_def)
  moreover have "history (run test_host eleven_loaded
         [SetTab tab_track, SetRamadanDayPersist (Fin 3), SavePlan]) = history eleven_loaded"
    by (simp add: run_def setRamadanDayPersist_def savePlan_def Let_def)
  ultimately show ?thesis
    using load_eleven by simp
qed

text \<open>
  \<^bold>\<open>C3, amended.\<close>  From every state, whatever its history (a restored one included), and
  along every sequence of events: once a progress update has run the history holds at most
  ten entries, and right after an update the entry it made is at index 0; the stored copy
  is the same list.  A history of at most ten entries stays so along every sequence of
  events.
\<close>

theorem history_bounded_newest_first:
  "((\<exists>t. UpdateProgress t \<in> set evs) \<longrightarrow> length (history (run P s evs)) \<le> 10)
   \<and> (length (history s) \<le> 10 \<longrightarrow> length (history (run P s evs)) \<le> 10)
   \<and> length (history (run P s (evs @ [UpdateProgress now]))) \<le> 10
   \<and> history (run P s (evs @ [UpdateProgress now])) ! 0 =
       HistoryItem now (newLabel P (run P s evs))
         (pagesCompleted (progress (run P s (evs @ [UpdateProgress now]))))
   \<and> localStorage (run P s (evs @ [UpdateProgress now])) LS_history =
       Some (JSON_stringify P (Array (history (run P s (evs @ [UpdateProgress now])))))"
proof -
  have a: "(\<exists>t. UpdateProgress t \<in> set evs) \<longrightarrow> length (history (run P s evs)) \<le> 10"
    using history_bounded_after_update by blast
  have b: "length (history (run P s (evs @ [UpdateProgress now]))) \<le> 10"
    by (rule history_bounded_after_update[of now]) simp
  have c: "history (run P s (evs @ [UpdateProgress now])) ! 0 =
       HistoryItem now (newLabel P (run P s evs))
         (pagesCompleted (progress (run P s (evs @ [UpdateProgress now]))))"
    by (simp add: run_snoc up_fields)
  have d: "localStorage (run P s (evs @ [UpdateProgress now])) LS_history =
       Some (JSON_stringify P (Array (history (run P s (evs @ [UpdateProgress now])))))"
    by (simp add: run_snoc updateProgress_def Let_def)
  have e: "length (history s) \<le> 10 \<longrightarrow> length (history (run P s evs)) \<le> 10"
    using history_bound_preserved by blast
  from a e b c d show ?thesis by blast
qed

text \<open>The restored history of eleven entries, after one update.\<close>

theorem history_bounded_newest_first_witness:
  "length (history (run test_host eleven_loaded [UpdateProgress (Fin 1700000000001)])) = 10
   \<and> length (history (run test_host eleven_loaded
        [UpdateProgress (Fin 1700000000001), SetInputPage (Fin 7)])) \<le> 10
   \<and> history (run test_host eleven_loaded [UpdateProgress (Fin 1700000000001)]) ! 0
       = HistoryItem (Fin 1700000000001) (newLabel test_host eleven_loaded) (Fin 0)"
proof -
  have a: "length (history (run test_host eleven_loaded
        [UpdateProgress (Fin 1700000000001), SetInputPage (Fin 7)])) \<le> 10"
    using history_bounded_newest_first
          [of "[UpdateProgress (Fin 1700000000001), SetInputPage (Fin 7)]" test_host
              eleven_loaded "Fin 0"]
    by simp
  have b: "history (run test_host eleven_loaded [UpdateProgress (Fin 1700000000001)]) ! 0
       = HistoryItem (Fin 1700000000001) (newLabel test_host eleven_loaded)
           (pagesCompleted (progress (run test_host eleven_loaded
              [UpdateProgress (Fin 1700000000001)])))"
    using history_bounded_newest_first[of "[]" test_host eleven_loaded "Fin 1700000000001"]
    by (simp add: run_def)
  have c: "pagesCompleted (progress (run test_host eleven_loaded
              [UpdateProgress (Fin 1700000000001)])) = Fin 0"
    by (simp add: run_def up_fields(1) newPagesCompleted_def eleven_loaded_def initialState_def
          Let_def num_defs derived_defs)
  have d: "length (history (run test_host eleven_loaded [UpdateProgress (Fin 1700000000001)])) = 10"
    by (simp add: run_def up_fields(2) eleven_loaded_def eleven_entries_def)
  from a b c d show ?thesis by simp
qed

text \<open>
  \<^bold>\<open>C4\<close>, as the specification states it, fails: the day cursor is not always inside
  \<open>[1, daysTotal]\<close> of the active plan.  The loader takes any stored number above zero
  (day 100 of the default thirty); saving a plan with fewer days leaves the cursor as it is
  (day 30 of a plan of 29 days); and the setter clamps to the saved plan's day total as
  stored, so under a restored plan of half a day it sets the cursor below 1.
\<close>

theorem cursor_not_always_in_range:
  "load test_host (initialState day100_store)
     = Inr ((initialState day100_store)\<lparr>ramadanDay := Fin 100\<rparr>)
   \<and> daysTotalFromPlan test_host ((initialState day100_store)\<lparr>ramadanDay := Fin 100\<rparr>)
       = Number (Fin 30)
   \<and> \<not> cursor_in_range test_host ((initialState day100_store)\<lparr>ramadanDay := Fin 100\<rparr>)
   \<and> ramadanDay save_shorter_plan = Fin 30
   \<and> daysTotalFromPlan test_host save_shorter_plan = Number (Fin 29)
   \<and> \<not> cursor_in_range test_host save_shorter_plan
   \<and> load test_host (initialState halfday_store) = Inr halfday_loaded
   \<and> ramadanDay (setRamadanDayPersist test_host (Fin 5) halfday_loaded) = Fin 0.5
   \<and> \<not> cursor_in_range test_host (setRamadanDayPersist test_host (Fin 5) halfday_loaded)"
proof -
  have a: "daysTotalFromPlan test_host ((initialState day100_store)\<lparr>ramadanDay := Fin 100\<rparr>)
       = Number (Fin 30)
     \<and> \<not> cursor_in_range test_host ((initialState day100_store)\<lparr>ramadanDay := Fin 100\<rparr>)"
    by (simp add: cursor_in_range_def initialState_def num_defs derived_defs)
  have b: "ramadanDay save_shorter_plan = Fin 30
     \<and> daysTotalFromPlan test_host save_shorter_plan = Number (Fin 29)
     \<and> \<not> cursor_in_range test_host save_shorter_plan"
    by (simp add: cursor_in_range_def save_shorter_plan_def handler_defs num_defs derived_defs)
  have c: "ramadanDay (setRamadanDayPersist test_host (Fin 5) halfday_loaded) = Fin 0.5
     \<and> \<not> cursor_in_range test_host (setRamadanDayPersist test_host (Fin 5) halfday_loaded)"
    by (simp add: cursor_in_range_def halfday_loaded_def initialState_def
          setRamadanDayPersist_def Let_def num_defs derived_defs)
  from load_day100 a b load_halfday c show ?thesis by blast
qed

text \<open>
  \<^bold>\<open>C4, amended.\<close>  The day cursor is clamped into \<open>[1, daysTotal]\<close> of the active plan
  whenever it is set through the day-cursor setter and that day total is at least 1, as it
  is when no plan is saved and after every save of a plan; the setter stores the text of
  the clamped value.  The cursor is not clamped again when it is restored (the loader takes
  any stored number above zero) or when the active plan's day total changes (saving a plan
  leaves the cursor as it is): the tracking computation clamps it where it is used, so its
  current day always lies in \<open>[1, dTotal]\<close>, and \<open>dTotal\<close> in \<open>[1, 60]\<close>.
\<close>

theorem cursor_in_range_when_set:
  "(jle (Fin 1) (ToNumber P (daysTotalFromPlan P s))
      \<longrightarrow> cursor_in_range P (setRamadanDayPersist P n s))
   \<and> (plan s = None \<longrightarrow> cursor_in_range P (setRamadanDayPersist P n s))
   \<and> cursor_in_range P (setRamadanDayPersist P n (savePlan P s))
   \<and> localStorage (setRamadanDayPersist P n s) LS_ramadanDay
        = Some (NumberToString P (ramadanDay (setRamadanDayPersist P n s)))
   \<and> (\<exists>d k. dTotal (trackTotals P s) = Fin d \<and> dayNow (trackTotals P s) = Fin k
          \<and> 1 \<le> k \<and> k \<le> d \<and> d \<le> 60)
   \<and> ramadanDay (savePlan P s) = ramadanDay s
   \<and> (ls LS_ramadanDay = Some t \<and> jgt (StringToNumber P t) (Fin 0)
        \<longrightarrow> (\<exists>s'. load P (initialState ls) = Inr s' \<and> ramadanDay s' = StringToNumber P t))"
proof -
  have a: "jle (Fin 1) (ToNumber P (daysTotalFromPlan P s')) \<Longrightarrow>
           cursor_in_range P (setRamadanDayPersist P n s')" for s'
    using clamp_between[of "Fin 1" "ToNumber P (daysTotalFromPlan P s')" n]
    by (simp add: cursor_in_range_def setRamadanDayPersist_fields)
  have b: "plan s = None \<longrightarrow> cursor_in_range P (setRamadanDayPersist P n s)"
    using a[of s] daysTotal_no_plan[of s P] by auto
  have c: "cursor_in_range P (setRamadanDayPersist P n (savePlan P s))"
    using a[of "savePlan P s"] daysTotal_savePlan[of P s] by auto
  have d: "ramadanDay (savePlan P s) = ramadanDay s"
    by (simp add: savePlan_def Let_def)
  have e: "ls LS_ramadanDay = Some t \<and> jgt (StringToNumber P t) (Fin 0)
        \<longrightarrow> (\<exists>s'. load P (initialState ls) = Inr s' \<and> ramadanDay s' = StringToNumber P t)"
    using load_day_numeric by blast
  show ?thesis
    using a[of s] b c d e dayNow_range[of P s] by (simp add: setRamadanDayPersist_fields(3))
qed

theorem cursor_in_range_when_set_witness:
  "cursor_in_range test_host (setRamadanDayPersist test_host (Fin 45) (initialState Map.empty))
   \<and> ramadanDay (setRamadanDayPersist test_host (Fin 45) (initialState Map.empty)) = Fin 30"
  using cursor_in_range_when_set[of test_host "initialState Map.empty" "Fin 45"]
  by (simp add: setRamadanDayPersist_fields(1) initialState_def num_defs derived_defs)

text \<open>
  \<^bold>\<open>C5.\<close>  For a goal \<open>g\<close> in \<open>[1, 50]\<close> and a day count \<open>d\<close> in \<open>[1, 60]\<close> the plan
  computation returns exactly \<open>604 * g\<close> total pages, \<open>604 * g / d\<close> pages a day and that
  value divided by the sessions a day, none of them rounded.
\<close>

theorem planResults_exact:
  assumes "ToNumber P (effectiveGoal s) = Fin g" and "1 \<le> g" and "g \<le> 50"
    and "ToNumber P (effectiveDays s) = Fin d" and "1 \<le> d" and "d \<le> 60"
  shows "total (planResults P s) = Fin (604 * g)
       \<and> perDay (planResults P s) = Fin (604 * g / d)
       \<and> perSession (planResults P s) = jdiv (Fin (604 * g / d)) (ToNumber P (sessions s))
       \<and> (\<forall>k. sessions s = Number (Fin k) \<and> k \<noteq> 0
              \<longrightarrow> perSession (planResults P s) = Fin (604 * g / d / k))"
proof -
  have g: "plan_g (planResults P s) = Fin g"
    using assms(1-3) by (simp add: pr_fields(5) num_defs)
  have d: "plan_d (planResults P s) = Fin d"
    using assms(4-6) by (simp add: pr_fields(6) num_defs)
  have t: "total (planResults P s) = Fin (604 * g)"
    using g by (simp add: pr_fields(1,5) QURAN_PAGES_def)
  have p: "perDay (planResults P s) = Fin (604 * g / d)"
    using t d assms(5) by (simp add: pr_fields(2))
  show ?thesis
    using t p by (auto simp: pr_fields(3))
qed

theorem planResults_exact_witness:
  "total (planResults test_host (initialState Map.empty)) = Fin 604
   \<and> perDay (planResults test_host (initialState Map.empty)) = Fin (604 / 30)
   \<and> perSession (planResults test_host (initialState Map.empty)) = Fin (604 / 60)"
  using planResults_exact[of test_host "initialState Map.empty" 1 30]
  by (simp add: initialState_def effectiveGoal_def effectiveDays_def)

text \<open>
  \<^bold>\<open>C6.\<close>  In the on-page mode the reported page is first clamped to \<open>[1, 604]\<close>; the update
  then stores \<open>page - 1\<close> when the active goal is 1 and \<open>clamp(page - 1, 0, totalPages)\<close>
  otherwise (which is \<open>page - 1\<close> again, the total being at least 604).
\<close>

theorem onPage_pagesCompleted:
  assumes "trackMode s = onPage"
  shows "\<exists>page. clamp (inputPage s) (Fin 1) QURAN_PAGES = Fin page \<and> 1 \<le> page \<and> page \<le> 604
      \<and> (activeGoal P s = Number (Fin 1)
            \<longrightarrow> pagesCompleted (progress (updateProgress P now s)) = Fin (page - 1))
      \<and> (activeGoal P s \<noteq> Number (Fin 1)
            \<longrightarrow> pagesCompleted (progress (updateProgress P now s))
                  = clamp (Fin (page - 1)) (Fin 0) (totalPages P s))
      \<and> pagesCompleted (progress (updateProgress P now s)) = Fin (page - 1)"
proof -
  obtain page where page: "clamp (inputPage s) (Fin 1) QURAN_PAGES = Fin page" "1 \<le> page" "page \<le> 604"
    using clamp_Fin_range[of 1 604 "inputPage s"] by (auto simp: QURAN_PAGES_def)
  obtain t where t: "totalPages P s = Fin t" "604 \<le> t"
    using totalPages_range by blast
  have c: "clamp (Fin (page - 1)) (Fin 0) (totalPages P s) = Fin (page - 1)"
    using page(2,3) t by (simp add: clamp_def isNaN_def Math_min_def Math_max_def)
  have "newPagesCompleted P s =
     (if activeGoal P s = Number (Fin 1) then Fin (page - 1)
      else clamp (Fin (page - 1)) (Fin 0) (totalPages P s))"
    using assms page(1) by (simp add: newPagesCompleted_def Let_def jsub_def)
  with page c show ?thesis
    by (auto simp: up_fields(1))
qed

text \<open>Goal 1, page 100: 99 pages completed.\<close>

theorem onPage_pagesCompleted_witness:
  "pagesCompleted (progress (updateProgress test_host (Fin 1700000000000)
      (run test_host (initialState Map.empty) [SetInputPage (Fin 100)]))) = Fin 99"
  using onPage_pagesCompleted[of "run test_host (initialState Map.empty) [SetInputPage (Fin 100)]"
             test_host "Fin 1700000000000"]
  by (simp add: run_def initialState_def num_defs derived_defs)

text \<open>
  \<^bold>\<open>C7.\<close>  In the plan computation and in the tracking computation the per-salah value is
  present exactly when the sessions a day are the number 5 (the live sessions for the plan,
  the saved plan's, else the live ones, for tracking), and is then the per-day value
  divided by 5.
\<close>

theorem perSalah_iff_five_sessions:
  "(perSalah (planResults P s) \<noteq> None) = (sessions s = Number (Fin 5))
   \<and> perSalah (planResults P s) =
       (if sessions s = Number (Fin 5) then Some (jdiv (perDay (planResults P s)) (Fin 5)) else None)
   \<and> (neededPerSalah (trackTotals P s) \<noteq> None) = (sessionsFromPlan s = Number (Fin 5))
   \<and> neededPerSalah (trackTotals P s) =
       (if sessionsFromPlan s = Number (Fin 5)
        then Some (jdiv (neededPerDay (trackTotals P s)) (Fin 5)) else None)"
  by (simp add: pr_fields(4) tt_neededPerSalah)

theorem perSalah_iff_five_sessions_witness:
  "perSalah (planResults test_host
      (run test_host (initialState Map.empty) [SetGoalPreset Goal2, SetDaysPreset Days29, SetSessions Sessions5]))
     = Some (Fin (1208 / 29 / 5))
   \<and> perSalah (planResults test_host (initialState Map.empty)) = None
   \<and> neededPerSalah (trackTotals test_host (initialState Map.empty)) = None"
  using perSalah_iff_five_sessions[of test_host "run test_host (initialState Map.empty) [SetGoalPreset Goal2, SetDaysPreset Days29, SetSessions Sessions5]"]
     perSalah_iff_five_sessions[of test_host "initialState Map.empty"]
  by (simp add: run_def initialState_def pr_fields(1,2,6) sessionsFromPlan_def effectiveGoal_def
        effectiveDays_def num_defs)




text \<open>
  \<^bold>\<open>C9.\<close>  After a reset, from any state, the plan inputs, the saved plan, the tracking
  inputs, the day cursor, the progress, the history and the toast have their initial values
  and the four keys of the plan, the progress, the history and the day are absent from the
  store.  The theme and the open tab, which the reset does not touch, are the only fields
  kept.
\<close>

theorem resetAll_restores_defaults:
  "goalPreset (resetAll s) = Goal1 \<and> customGoal (resetAll s) = Number (Fin 1)
   \<and> daysPreset (resetAll s) = Days30 \<and> customDays (resetAll s) = Number (Fin 30)
   \<and> sessions (resetAll s) = Number (Fin 2)
   \<and> plan (resetAll s) = None
   \<and> trackMode (resetAll s) = onPage \<and> inputPage (resetAll s) = Fin 1
   \<and> inputReadPages (resetAll s) = Fin 0
   \<and> ramadanDay (resetAll s) = Fin 1
   \<and> progress (resetAll s) = \<lparr> pagesCompleted = Fin 0, lastUpdatedAt = Null \<rparr>
   \<and> history (resetAll s) = []
   \<and> planSavedToast (resetAll s) = []
   \<and> localStorage (resetAll s) LS_plan = None
   \<and> localStorage (resetAll s) LS_progress = None
   \<and> localStorage (resetAll s) LS_history = None
   \<and> localStorage (resetAll s) LS_ramadanDay = None
   \<and> resetAll s = (initialState (localStorage (resetAll s)))\<lparr>theme := theme s, tab := tab s\<rparr>"
  by (simp add: resetAll_def initialState_def LS_plan_def LS_progress_def LS_history_def LS_ramadanDay_def)

text \<open>
  \<^bold>\<open>C10.\<close>  The days left of the tracking computation are at least 1 for every state, so the
  needed pages a day are always the pages left divided by the days left: the branch for zero
  days left is never taken.
\<close>

theorem daysLeft_at_least_one: "\<exists>x. daysLeft (trackTotals P s) = Fin x \<and> 1 \<le> x \<and>
  neededPerDay (trackTotals P s) = jdiv (left (trackTotals P s)) (daysLeft (trackTotals P s))"
proof -
  obtain x where x: "daysLeft (trackTotals P s) = Fin x" "1 \<le> x"
    using daysLeft_ge_1 by blast
  then have "jgt (daysLeft (trackTotals P s)) (Fin 0)"
    by (simp add: jgt_def jlt_def)
  with x show ?thesis by (simp add: tt_neededPerDay)
qed

theorem daysLeft_at_least_one_witness:
  "daysLeft (trackTotals test_host (day15_session 312)) = Fin 16
   \<and> neededPerDay (trackTotals test_host (day15_session 312)) = Fin (292 / 16)"
  using daysLeft_at_least_one[of test_host "day15_session 312"]
  by (simp add: tt_daysLeft tt_left tt_dayNow tt_dTotal day15_completed day15_state
        num_defs derived_defs)

section \<open>Further properties the specification lists\<close>

text \<open>
  \<^bold>\<open>X1.\<close>  Clamping is idempotent for every number, NaN and the infinities included, when
  the lower bound is at most the upper bound.
\<close>

theorem clamp_idempotent:
  "jle a b \<Longrightarrow> clamp (clamp x a b) a b = clamp x a b"
  by (cases x; cases a; cases b) (auto simp: clamp_def isNaN_def Math_min_def Math_max_def)

theorem clamp_idempotent_witness:
  "clamp (clamp (Fin 75) (Fin 1) (Fin 60)) (Fin 1) (Fin 60) = Fin 60"
  using clamp_idempotent[of "Fin 1" "Fin 60" "Fin 75"]
  by (simp add: clamp_def isNaN_def Math_min_def Math_max_def)

text \<open>
  \<^bold>\<open>X2.\<close>  When the pages completed equal the total pages, the tracking computation
  reports 100 percent and no pages left.
\<close>

theorem all_pages_read:
  assumes "pagesCompleted (progress s) = totalPages P s"
  shows "pct (trackTotals P s) = Fin 100 \<and> left (trackTotals P s) = Fin 0
     \<and> completed (trackTotals P s) = totalPages P s"
proof -
  obtain t where t: "totalPages P s = Fin t" "604 \<le> t"
    using totalPages_range by blast
  have c: "completed (trackTotals P s) = Fin t"
    using assms t by (simp add: tt_completed num_defs)
  have "pct (trackTotals P s) = jmul (jdiv (completed (trackTotals P s)) (totalPages P s)) (Fin 100)"
    using t by (simp add: trackTotals_def Let_def)
  with c t show ?thesis by (simp add: tt_left num_defs)
qed

theorem all_pages_read_witness:
  "pct (trackTotals test_host (day15_session 604)) = Fin 100
   \<and> left (trackTotals test_host (day15_session 604)) = Fin 0"
  using all_pages_read[of "day15_session 604" test_host]
  by (simp add: day15_state totalPages_def effectiveGoal_def num_defs)

text \<open>
  \<^bold>\<open>X3.\<close>  The two plans the specification works out.  One reading in 30 days with 2
  sessions: 604 pages, \<open>604 / 30\<close> a day shown as 20, and 10 a session.  Two readings in 29
  days with 5 sessions: 1208 pages and \<open>1208 / 29 / 5\<close> a salah, shown as 8.
\<close>

theorem plan_examples:
  "total (planResults test_host (initialState Map.empty)) = Fin 604
   \<and> perDay (planResults test_host (initialState Map.empty)) = Fin (604 / 30)
   \<and> roundSmart (perDay (planResults test_host (initialState Map.empty))) = Fin 20
   \<and> roundSmart (perSession (planResults test_host (initialState Map.empty))) = Fin 10
   \<and> total (planResults test_host (run test_host (initialState Map.empty)
        [SetGoalPreset Goal2, SetDaysPreset Days29, SetSessions Sessions5])) = Fin 1208
   \<and> perSalah (planResults test_host (run test_host (initialState Map.empty)
        [SetGoalPreset Goal2, SetDaysPreset Days29, SetSessions Sessions5]))
       = Some (Fin (1208 / 29 / 5))
   \<and> roundSmart (Fin (1208 / 29 / 5)) = Fin 8"
  by (simp add: run_def pr_fields initialState_def effectiveGoal_def effectiveDays_def
        num_defs roundSmart_def)

text \<open>
  \<^bold>\<open>X4.\<close>  On-page mode under a saved plan of two readings (1208 pages): page 100 gives
  99 pages completed.
\<close>

theorem onPage_two_readings_example:
  "pagesCompleted (progress (run test_host (initialState Map.empty)
     [SetGoalPreset Goal2, SavePlan, SetInputPage (Fin 100),
      UpdateProgress (Fin 1700000000000)])) = Fin 99
   \<and> totalPages test_host (run test_host (initialState Map.empty)
        [SetGoalPreset Goal2, SavePlan, SetInputPage (Fin 100)]) = Fin 1208
   \<and> activeGoal test_host (run test_host (initialState Map.empty)
        [SetGoalPreset Goal2, SavePlan, SetInputPage (Fin 100)]) = Number (Fin 2)"
  by (simp add: handler_defs num_defs derived_defs)

end
